theory Spec2Isabelle
  imports Main
begin

section \<open>ospd-netstat: the wrapper's scan routine\<close>

text \<open>
  The embedding follows \<^verbatim>\<open>src/ospd_netstat/wrapper.py\<close>. The class \<^verbatim>\<open>OSPDnetstat\<close>
  has two methods of interest, \<^verbatim>\<open>check\<close> and \<^verbatim>\<open>exec_scan\<close>. The framework methods that
  \<^verbatim>\<open>exec_scan\<close> calls are not part of the repository:
  \<^item> \<^verbatim>\<open>self.get_scan_options(scan_id)\<close> and \<^verbatim>\<open>self.run_command(...)\<close> are taken by their
    return values, the parameters \<open>options\<close> (a dictionary) and \<open>result\<close> (\<open>None\<close> or the
    list of output lines);
  \<^item> \<^verbatim>\<open>add_scan_error\<close>, \<^verbatim>\<open>add_scan_log\<close> and \<^verbatim>\<open>add_scan_host_detail\<close> append to the
    scan's results; the model returns the list of these calls in the order they are made.
  A Python exception is a value \<open>Inl e\<close>.
\<close>

subsection \<open>Python values and built-ins\<close>

datatype py_error = IndexError

text \<open>Values a scan option can hold; Python's \<^verbatim>\<open>None\<close> is \<open>None\<close> of \<open>pyval option\<close>.\<close>

datatype pyval = PyInt int | PyBool bool | PyStr string

text \<open>
  \<^verbatim>\<open>str.isspace\<close> as \<^verbatim>\<open>str.split()\<close> uses it, for the code points below 256 (one \<open>char\<close> is
  one code point): U+0009..U+000D, U+001C..U+001F, U+0020, U+0085, U+00A0.
\<close>

definition py_isspace :: "char \<Rightarrow> bool" where
  "py_isspace c =
     (c = CHR 0x20 \<or> c = CHR 0x09 \<or> c = CHR 0x0A \<or> c = CHR 0x0B \<or> c = CHR 0x0C \<or>
      c = CHR 0x0D \<or> c = CHR 0x1C \<or> c = CHR 0x1D \<or> c = CHR 0x1E \<or> c = CHR 0x1F \<or>
      c = CHR 0x85 \<or> c = CHR 0xA0)"

text \<open>
  \<^verbatim>\<open>s.split()\<close> without a separator: runs of whitespace separate the words, leading and
  trailing whitespace gives no empty word. \<open>w\<close> is the word read so far.
\<close>

fun split_ws_from :: "string \<Rightarrow> string \<Rightarrow> string list" where
  "split_ws_from w [] = (if w = [] then [] else [w])"
| "split_ws_from w (c # cs) =
     (if py_isspace c then (if w = [] then split_ws_from [] cs else w # split_ws_from [] cs)
      else split_ws_from (w @ [c]) cs)"

definition split_ws :: "string \<Rightarrow> string list" where
  "split_ws s = split_ws_from [] s"

text \<open>
  \<^verbatim>\<open>s.split(sep)\<close> for a separator of one character: every occurrence of the separator
  ends a piece, and the result has one more piece than there are separators.
\<close>

fun split_sep_from :: "char \<Rightarrow> string \<Rightarrow> string \<Rightarrow> string list" where
  "split_sep_from sep w [] = [w]"
| "split_sep_from sep w (c # cs) =
     (if c = sep then w # split_sep_from sep [] cs else split_sep_from sep (w @ [c]) cs)"

definition split_sep :: "char \<Rightarrow> string \<Rightarrow> string list" where
  "split_sep sep s = split_sep_from sep [] s"

text \<open>\<^verbatim>\<open>sep.join(xs)\<close>.\<close>

fun join :: "string \<Rightarrow> string list \<Rightarrow> string" where
  "join sep [] = []"
| "join sep [x] = x"
| "join sep (x # y # ys) = x @ sep @ join sep (y # ys)"

text \<open>\<^verbatim>\<open>xs[i]\<close> for an index that is not negative: out of range raises \<^verbatim>\<open>IndexError\<close>.\<close>

definition index :: "'a list \<Rightarrow> nat \<Rightarrow> py_error + 'a" where
  "index xs i = (if i < length xs then Inr (xs ! i) else Inl IndexError)"

text \<open>\<^verbatim>\<open>'%d' % n\<close> for a length \<open>n\<close>: the decimal numeral.\<close>

definition digit :: "nat \<Rightarrow> char" where
  "digit d = ''0123456789'' ! d"

fun format_d :: "nat \<Rightarrow> string" where
  "format_d n = (if n < 10 then [digit n] else format_d (n div 10) @ [digit (n mod 10)])"

declare format_d.simps [simp del]

text \<open>
  \<^verbatim>\<open>dump is 1\<close>: identity with the integer object 1. CPython keeps one object for each small
  integer, so the test holds exactly for the integer 1; it fails for \<^verbatim>\<open>None\<close>, for
  \<^verbatim>\<open>True\<close> (a different object, although \<^verbatim>\<open>True == 1\<close>) and for every other value.
\<close>

definition is_1 :: "pyval option \<Rightarrow> bool" where
  "is_1 v = (v = Some (PyInt 1))"

subsection \<open>The daemon\<close>

text \<open>
  The fields that \<^verbatim>\<open>__init__\<close> sets. \<^verbatim>\<open>OSPD_PARAMS\<close> declares the one scanner parameter,
  \<^verbatim>\<open>dumptable\<close>, of type boolean with default \<^verbatim>\<open>0\<close>: the framework hands booleans over as
  the integers 0 and 1.
\<close>

record OSPDnetstat =
  server_version :: string
  scanner_info :: "string \<rightharpoonup> string"
  scanner_params :: "string \<rightharpoonup> (string \<rightharpoonup> pyval)"

definition OSPD_PARAMS :: "(string \<times> (string \<rightharpoonup> pyval)) list" where
  "OSPD_PARAMS =
     [(''dumptable'',
       [''type'' \<mapsto> PyStr ''boolean'',
        ''name'' \<mapsto> PyStr ''Dump the output table of netstat'',
        ''default'' \<mapsto> PyInt 0,
        ''mandatory'' \<mapsto> PyInt 0,
        ''description'' \<mapsto>
          PyStr ''Whether to create a log result with the raw output table of netstat.''])]"

definition check :: "OSPDnetstat \<Rightarrow> bool" where
  "check self = True"

subsection \<open>The results a scan adds\<close>

text \<open>
  One constructor for each framework method the wrapper calls, with the arguments of the
  call: scan id and host first, then the keyword arguments. \<^verbatim>\<open>add_scan_log\<close> is called with
  \<^verbatim>\<open>name\<close> and either \<^verbatim>\<open>value\<close> or \<^verbatim>\<open>port\<close>; the keyword that is not passed is \<open>None\<close>.
\<close>

datatype sink_call =
    add_scan_error string string string
  | add_scan_log string string string "string option" "string option"
  | add_scan_host_detail string string string string

subsection \<open>exec_scan\<close>

text \<open>
  The body of the parsing loop, for one line: \<open>tcp_ports\<close> is the list built so far, the
  result is the list after the line, or the exception the line raises.
  \<^verbatim>\<open>
  words = ' '.join(line.split()).split()
  if len(words) > 2 and words[0] == "tcp":
      port = words[3].split(":")[1]
      if words[3].split(":")[0] == '0.0.0.0':
          tcp_ports.append(port)
  \<close>
  \<^verbatim>\<open>words[0]\<close> is read only when \<^verbatim>\<open>len(words) > 2\<close>, so it never raises.
\<close>

definition scan_line :: "string \<Rightarrow> string list \<Rightarrow> py_error + string list" where
  "scan_line line tcp_ports =
     (let words = split_ws (join '' '' (split_ws line)) in
      if length words > 2 \<and> words ! 0 = ''tcp'' then
        (case index words 3 of
           Inl e \<Rightarrow> Inl e
         | Inr local_address \<Rightarrow>
            (case index (split_sep CHR '':'' local_address) 1 of
               Inl e \<Rightarrow> Inl e
             | Inr port \<Rightarrow>
                (case index (split_sep CHR '':'' local_address) 0 of
                   Inl e \<Rightarrow> Inl e
                 | Inr address \<Rightarrow>
                    if address = ''0.0.0.0'' then Inr (tcp_ports @ [port])
                    else Inr tcp_ports)))
      else Inr tcp_ports)"

text \<open>\<^verbatim>\<open>for line in result: ...\<close>: the first exception ends the loop.\<close>

fun parse_lines :: "string list \<Rightarrow> string list \<Rightarrow> py_error + string list" where
  "parse_lines [] tcp_ports = Inr tcp_ports"
| "parse_lines (line # rest) tcp_ports =
     (case scan_line line tcp_ports of
        Inl e \<Rightarrow> Inl e
      | Inr tcp_ports' \<Rightarrow> parse_lines rest tcp_ports')"

definition summary_text :: "nat \<Rightarrow> string" where
  "summary_text n =
     ''Via Netstat '' @ format_d n @
     '' open tcp ports were found that are bound to local address 0.0.0.0.''"

definition dump_text :: "string list \<Rightarrow> string" where
  "dump_text result = ''Raw netstat output:'' @ [CHR 0x0A, CHR 0x0A] @ concat result"

text \<open>
  \<open>exec_scan options result scan_id target\<close> gives the calls made to the framework's result
  methods, in order, and then the value returned (\<open>Inr\<close>) or the exception raised (\<open>Inl\<close>).
  The parsing loop makes no call, so an exception there leaves the results empty.
\<close>

definition exec_scan ::
  "(string \<rightharpoonup> pyval) \<Rightarrow> string list option \<Rightarrow> string \<Rightarrow> string \<Rightarrow>
   sink_call list \<times> (py_error + int)" where
  "exec_scan options result scan_id target =
     (let dump = options ''dumptable'' in
      case result of
        None \<Rightarrow>
          ([add_scan_error scan_id target ''A problem occurred trying to execute 'netstat'.'',
            add_scan_error scan_id target ''The result of 'netstat' was empty.''],
           Inr 2)
      | Some lines \<Rightarrow>
          (case parse_lines lines [] of
             Inl e \<Rightarrow> ([], Inl e)
           | Inr tcp_ports \<Rightarrow>
              ([add_scan_log scan_id target ''Netstat summary''
                  (Some (summary_text (length tcp_ports))) None]
               @ map (\<lambda>port. add_scan_log scan_id target ''Netstat port'' None
                                (Some (port @ ''/tcp''))) tcp_ports
               @ (if is_1 dump
                  then [add_scan_log scan_id target ''Netstat dump''
                          (Some (dump_text lines)) None]
                  else [])
               @ (if length tcp_ports > 0
                  then [add_scan_host_detail scan_id target ''ports'' (join '', '' tcp_ports),
                        add_scan_host_detail scan_id target ''tcp_ports'' (join '', '' tcp_ports)]
                  else []),
               Inr 1)))"

subsection \<open>Vocabulary of the properties\<close>

text \<open>
  The definitions below are not code of the wrapper: they name the notions the properties
  are stated with. The fields of a line are \<open>split_ws line\<close>; the local address is the
  fourth field, \<open>split_ws line ! 3\<close>.
\<close>

text \<open>The text before the first colon, and the text after it (empty when there is none).\<close>

definition before_colon :: "string \<Rightarrow> string" where
  "before_colon f = takeWhile (\<lambda>c. c \<noteq> CHR '':'') f"

definition after_colon :: "string \<Rightarrow> string" where
  "after_colon f = tl (dropWhile (\<lambda>c. c \<noteq> CHR '':'') f)"

text \<open>
  \<open>tcp_candidate\<close>: more than 2 fields, the first of them \<^verbatim>\<open>tcp\<close>.
  \<open>malformed\<close>: a candidate with no fourth field, or with no colon in the fourth field.
  \<open>listening\<close>: a candidate whose fourth field has a colon, with \<^verbatim>\<open>0.0.0.0\<close> before the
  first one. \<open>port_text\<close>: the fourth field between its first and its second colon (to
  the end of the field when there is no second colon).
\<close>

definition tcp_candidate :: "string \<Rightarrow> bool" where
  "tcp_candidate line = (length (split_ws line) > 2 \<and> split_ws line ! 0 = ''tcp'')"

definition malformed :: "string \<Rightarrow> bool" where
  "malformed line =
     (tcp_candidate line \<and>
      (length (split_ws line) = 3 \<or> CHR '':'' \<notin> set (split_ws line ! 3)))"

definition listening :: "string \<Rightarrow> bool" where
  "listening line =
     (tcp_candidate line \<and> length (split_ws line) > 3 \<and>
      CHR '':'' \<in> set (split_ws line ! 3) \<and>
      before_colon (split_ws line ! 3) = ''0.0.0.0'')"

definition port_text :: "string \<Rightarrow> string" where
  "port_text line = before_colon (after_colon (split_ws line ! 3))"

text \<open>The calls of one kind among the results of a scan.\<close>

fun is_log :: "string \<Rightarrow> sink_call \<Rightarrow> bool" where
  "is_log n (add_scan_log _ _ name _ _) = (name = n)"
| "is_log n _ = False"

fun is_host_detail :: "sink_call \<Rightarrow> bool" where
  "is_host_detail (add_scan_host_detail _ _ _ _) = True"
| "is_host_detail _ = False"

section \<open>Properties\<close>

subsection \<open>The built-ins\<close>

lemma split_ws_from_clean:
  "\<forall>c\<in>set w. \<not> py_isspace c \<Longrightarrow> x \<in> set (split_ws_from w s) \<Longrightarrow>
   x \<noteq> [] \<and> (\<forall>c\<in>set x. \<not> py_isspace c)"
proof (induction s arbitrary: w)
  case Nil
  then show ?case by (auto split: if_splits)
next
  case (Cons c cs)
  show ?case
  proof (cases "py_isspace c")
    case True
    with Cons.prems have "x = w \<and> w \<noteq> [] \<or> x \<in> set (split_ws_from [] cs)"
      by (auto split: if_splits)
    then show ?thesis using Cons.prems(1) Cons.IH [of "[]"] by auto
  next
    case False
    with Cons.prems have "x \<in> set (split_ws_from (w @ [c]) cs)" by simp
    moreover have "\<forall>d\<in>set (w @ [c]). \<not> py_isspace d" using Cons.prems(1) False by simp
    ultimately show ?thesis using Cons.IH by blast
  qed
qed

lemma split_ws_from_word:
  "\<forall>c\<in>set x. \<not> py_isspace c \<Longrightarrow> split_ws_from w (x @ s) = split_ws_from (w @ x) s"
  by (induction x arbitrary: w) simp_all

lemma split_ws_from_join:
  "\<forall>x\<in>set ws. x \<noteq> [] \<and> (\<forall>c\<in>set x. \<not> py_isspace c) \<Longrightarrow>
   split_ws_from [] (join '' '' ws) = ws"
proof (induction "'' ''" ws rule: join.induct)
  case 1
  then show ?case by simp
next
  case (2 x)
  then show ?case using split_ws_from_word [of x "[]" "[]"] by simp
next
  case (3 x y ys)
  have sp: "py_isspace CHR '' ''" by (simp add: py_isspace_def)
  have "split_ws_from [] (x @ '' '' @ join '' '' (y # ys)) =
        split_ws_from x ('' '' @ join '' '' (y # ys))"
    using 3 split_ws_from_word [of x "[]"] by simp
  also have "\<dots> = x # split_ws_from [] (join '' '' (y # ys))"
    using 3 sp by simp
  finally show ?case using 3 by simp
qed

lemma words_eq_fields: "split_ws (join '' '' (split_ws line)) = split_ws line"
  unfolding split_ws_def
  by (rule split_ws_from_join) (use split_ws_from_clean [of "[]"] in auto)

lemma split_sep_from_eq:
  "split_sep_from sep w s =
     (w @ takeWhile (\<lambda>c. c \<noteq> sep) s) #
     (case dropWhile (\<lambda>c. c \<noteq> sep) s of [] \<Rightarrow> [] | _ # r \<Rightarrow> split_sep_from sep [] r)"
  by (induction s arbitrary: w) simp_all

lemma split_colon_first: "index (split_sep CHR '':'' f) 0 = Inr (before_colon f)"
  by (subst split_sep_def, subst split_sep_from_eq) (simp add: index_def before_colon_def)

lemma split_colon_second:
  "index (split_sep CHR '':'' f) 1 =
     (if CHR '':'' \<in> set f then Inr (before_colon (after_colon f)) else Inl IndexError)"
proof (cases "CHR '':'' \<in> set f")
  case False
  then have d: "dropWhile (\<lambda>c. c \<noteq> CHR '':'') f = []" by auto
  have "split_sep CHR '':'' f = [takeWhile (\<lambda>c. c \<noteq> CHR '':'') f]"
    unfolding split_sep_def by (subst split_sep_from_eq) (simp only: d list.case append_Nil)
  with False show ?thesis by (simp add: index_def)
next
  case True
  then obtain a r where d: "dropWhile (\<lambda>c. c \<noteq> CHR '':'') f = a # r"
    by (cases "dropWhile (\<lambda>c. c \<noteq> CHR '':'') f") (auto simp: dropWhile_eq_Nil_conv)
  have "split_sep CHR '':'' f =
          takeWhile (\<lambda>c. c \<noteq> CHR '':'') f # split_sep_from CHR '':'' [] r"
    unfolding split_sep_def by (subst split_sep_from_eq) (simp only: d list.case append_Nil)
  moreover have "\<exists>rest. split_sep_from CHR '':'' [] r =
                           takeWhile (\<lambda>c. c \<noteq> CHR '':'') r # rest"
    by (subst split_sep_from_eq) simp
  ultimately have "index (split_sep CHR '':'' f) 1 = Inr (takeWhile (\<lambda>c. c \<noteq> CHR '':'') r)"
    by (auto simp: index_def)
  with True d show ?thesis by (simp add: before_colon_def after_colon_def)
qed

subsection \<open>The parsing loop and the scan, characterised\<close>

lemma scan_line_eq:
  "scan_line line tcp_ports =
     (if malformed line then Inl IndexError
      else if listening line then Inr (tcp_ports @ [port_text line])
      else Inr tcp_ports)"
proof -
  let ?fs = "split_ws line"
  consider (skip) "\<not> tcp_candidate line"
    | (short) "tcp_candidate line" "length ?fs = 3"
    | (long) "tcp_candidate line" "3 < length ?fs"
    unfolding tcp_candidate_def by (cases "length (split_ws line) = 3") fastforce+
  then show ?thesis
  proof cases
    case skip
    then have "scan_line line tcp_ports = Inr tcp_ports"
      by (auto simp: scan_line_def words_eq_fields tcp_candidate_def Let_def)
    with skip show ?thesis by (simp add: malformed_def listening_def)
  next
    case short
    then have "scan_line line tcp_ports = Inl IndexError"
      by (simp add: scan_line_def words_eq_fields tcp_candidate_def index_def)
    with short show ?thesis by (simp add: malformed_def)
  next
    case long
    then have "scan_line line tcp_ports =
        (if CHR '':'' \<in> set (?fs ! 3)
         then if before_colon (?fs ! 3) = ''0.0.0.0''
              then Inr (tcp_ports @ [port_text line]) else Inr tcp_ports
         else Inl IndexError)"
      by (simp add: scan_line_def words_eq_fields tcp_candidate_def index_def [of ?fs]
          split_colon_first split_colon_second [unfolded One_nat_def] port_text_def Let_def)
    with long show ?thesis by (simp add: malformed_def listening_def)
  qed
qed

lemma parse_lines_eq:
  "parse_lines lines tcp_ports =
     (if list_ex malformed lines then Inl IndexError
      else Inr (tcp_ports @ map port_text (filter listening lines)))"
  by (induction lines arbitrary: tcp_ports) (simp_all add: scan_line_eq)

lemma exec_scan_raises:
  "list_ex malformed lines \<Longrightarrow>
   exec_scan options (Some lines) scan_id target = ([], Inl IndexError)"
  by (simp add: exec_scan_def parse_lines_eq)

lemma exec_scan_completes:
  assumes "\<not> list_ex malformed lines"
    and "tcp_ports = map port_text (filter listening lines)"
  shows "exec_scan options (Some lines) scan_id target =
     (add_scan_log scan_id target ''Netstat summary''
         (Some (summary_text (length tcp_ports))) None
      # map (\<lambda>port. add_scan_log scan_id target ''Netstat port'' None
                      (Some (port @ ''/tcp''))) tcp_ports
      @ (if options ''dumptable'' = Some (PyInt 1)
         then [add_scan_log scan_id target ''Netstat dump'' (Some (dump_text lines)) None]
         else [])
      @ (if tcp_ports = [] then []
         else [add_scan_host_detail scan_id target ''ports'' (join '', '' tcp_ports),
               add_scan_host_detail scan_id target ''tcp_ports'' (join '', '' tcp_ports)]),
      Inr 1)"
  using assms by (simp add: exec_scan_def parse_lines_eq is_1_def)

lemma filter_is_log_ports:
  "filter (is_log n) (map (\<lambda>port. add_scan_log s t m None (Some (f port))) ps) =
     (if m = n then map (\<lambda>port. add_scan_log s t m None (Some (f port))) ps else [])"
  by (induction ps) simp_all

lemma filter_host_detail_ports:
  "filter is_host_detail (map (\<lambda>port. add_scan_log s t m None (Some (f port))) ps) = []"
  by (induction ps) simp_all

text \<open>
  What a scan adds when no line of the result is malformed: the summary, the port logs,
  the dump and the host details, each read off \<open>exec_scan_completes\<close>.
\<close>

lemma summary_when_no_malformed_line:
  assumes "\<not> list_ex malformed lines"
  shows "filter (is_log ''Netstat summary'')
           (fst (exec_scan options (Some lines) scan_id target)) =
         [add_scan_log scan_id target ''Netstat summary''
            (Some (summary_text (length (filter listening lines)))) None]"
    and "snd (exec_scan options (Some lines) scan_id target) = Inr 1"
  using assms by (simp_all add: exec_scan_completes [OF _ refl] filter_is_log_ports)

lemma port_logs_when_no_malformed_line:
  assumes "\<not> list_ex malformed lines"
  shows "filter (is_log ''Netstat port'')
           (fst (exec_scan options (Some lines) scan_id target)) =
         map (\<lambda>line. add_scan_log scan_id target ''Netstat port'' None
                        (Some (port_text line @ ''/tcp'')))
             (filter listening lines)"
  using assms by (simp add: exec_scan_completes [OF _ refl] filter_is_log_ports comp_def)

lemma dump_when_no_malformed_line:
  assumes "\<not> list_ex malformed lines"
  shows "filter (is_log ''Netstat dump'')
           (fst (exec_scan options (Some lines) scan_id target)) =
         (if options ''dumptable'' = Some (PyInt 1)
          then [add_scan_log scan_id target ''Netstat dump''
                  (Some (''Raw netstat output:'' @ [CHR 0x0A, CHR 0x0A] @ concat lines)) None]
          else [])"
  using assms
  by (simp add: exec_scan_completes [OF _ refl] filter_is_log_ports dump_text_def)

lemma host_details_when_no_malformed_line:
  assumes "\<not> list_ex malformed lines"
    and "tcp_ports = map port_text (filter listening lines)"
  shows "filter is_host_detail
           (fst (exec_scan options (Some lines) scan_id target)) =
         (if tcp_ports = [] then []
          else [add_scan_host_detail scan_id target ''ports'' (join '', '' tcp_ports),
                add_scan_host_detail scan_id target ''tcp_ports'' (join '', '' tcp_ports)])"
  using assms
  by (simp add: exec_scan_completes [OF _ refl] filter_host_detail_ports)

lemma no_dump_unless_1:
  assumes "options ''dumptable'' \<noteq> Some (PyInt 1)"
  shows "filter (is_log ''Netstat dump'') (fst (exec_scan options result scan_id target)) = []"
proof (cases result)
  case None
  then show ?thesis by (simp add: exec_scan_def)
next
  case (Some lines)
  with assms show ?thesis
    by (cases "list_ex malformed lines")
       (simp_all add: exec_scan_raises exec_scan_completes [OF _ refl] filter_is_log_ports)
qed

subsection \<open>The scan on an absent result\<close>

text \<open>
  C3: when the command result is absent (\<^verbatim>\<open>None\<close>), \<open>exec_scan\<close> adds exactly two error
  results and nothing else (no summary, port or dump log, no host detail), and returns 2.
\<close>

theorem exec_scan_absent_result:
  "exec_scan options None scan_id target =
     ([add_scan_error scan_id target ''A problem occurred trying to execute 'netstat'.'',
       add_scan_error scan_id target ''The result of 'netstat' was empty.''],
      Inr 2)"
  by (simp add: exec_scan_def)

subsection \<open>The scan on a result with a malformed line\<close>

text \<open>
  C1: parsing is to skip a line that does not have the expected columns and never to raise.
  The code guards \<^verbatim>\<open>words[3]\<close> with \<^verbatim>\<open>len(words) > 2\<close> and reads
  \<^verbatim>\<open>words[3].split(":")[1]\<close> without looking for a colon: on a line of exactly 3 fields
  that starts with \<^verbatim>\<open>tcp\<close>, and on a \<^verbatim>\<open>tcp\<close> line whose fourth field has no colon, the
  scan ends with \<^verbatim>\<open>IndexError\<close>, with no result added and no status returned.
\<close>

theorem exec_scan_raises_on_malformed_tcp_line:
  "exec_scan options (Some [''tcp 0 0'']) scan_id target = ([], Inl IndexError) \<and>
   exec_scan options (Some [''tcp 0 0 0.0.0.0 0.0.0.0:* LISTEN 123/sshd'']) scan_id target
     = ([], Inl IndexError)"
  by (simp add: exec_scan_def scan_line_def split_ws_def split_sep_def py_isspace_def index_def)

text \<open>
  C2: with \<^verbatim>\<open>dumptable\<close> set, every result that is not absent is to give exactly one dump
  log. On a result with a malformed line the scan raises before the dump is added: no
  dump log. (Without a malformed line the dump log is as \<open>dump_when_no_malformed_line\<close>
  says, and \<open>no_dump_unless_1\<close> holds for every result.)
\<close>

theorem dump_lost_when_parsing_raises:
  "exec_scan [''dumptable'' \<mapsto> PyInt 1]
     (Some [''tcp 0 0 0.0.0.0:22 0.0.0.0:* LISTEN 123/sshd'', ''tcp 0 0'']) scan_id target
   = ([], Inl IndexError)"
  by (simp add: exec_scan_def scan_line_def split_ws_def split_sep_def py_isspace_def index_def)

text \<open>
  C4: a port is to be reported for a line exactly when the line has more than 2 fields,
  starts with \<^verbatim>\<open>tcp\<close> and has \<^verbatim>\<open>0.0.0.0\<close> before the first colon of its fourth field.
  Here the first line is such a line, and nothing is reported for it, because the second
  line (fourth field without a colon) raises. (Without a malformed line the ports reported
  are those of the \<open>listening\<close> lines: \<open>port_logs_when_no_malformed_line\<close>.)
\<close>

theorem port_finding_lost_when_parsing_raises:
  "exec_scan options
     (Some [''tcp 0 0 0.0.0.0:22 0.0.0.0:* LISTEN 123/sshd'',
            ''tcp 0 0 0.0.0.0 0.0.0.0:* LISTEN 456/nginx'']) scan_id target
   = ([], Inl IndexError)"
  by (simp add: exec_scan_def scan_line_def split_ws_def split_sep_def py_isspace_def index_def)

text \<open>
  C5: every result that is not absent is to give exactly one summary log and the status 1,
  also with no port found. Here no line qualifies, and the scan adds no summary and
  returns no status. (Without a malformed line: \<open>summary_when_no_malformed_line\<close>.)
\<close>

theorem summary_lost_when_parsing_raises:
  "exec_scan options
     (Some [''Active Internet connections (only servers)'', ''tcp 0 0'']) scan_id target
   = ([], Inl IndexError)"
  by (simp add: exec_scan_def scan_line_def split_ws_def split_sep_def py_isspace_def index_def)

text \<open>
  C6: there is to be one port log for each qualifying line, in the order of the lines,
  duplicates kept. Here two lines qualify (the same port twice), and no port log is added,
  because the third line raises. (Without a malformed line:
  \<open>port_logs_when_no_malformed_line\<close>.)
\<close>

theorem port_logs_lost_when_parsing_raises:
  "exec_scan options
     (Some [''tcp 0 0 0.0.0.0:22 0.0.0.0:* LISTEN 123/sshd'',
            ''tcp 0 0 0.0.0.0:22 0.0.0.0:* LISTEN 123/sshd'',
            ''tcp 0 0'']) scan_id target
   = ([], Inl IndexError)"
  by (simp add: exec_scan_def scan_line_def split_ws_def split_sep_def py_isspace_def index_def)

text \<open>
  C7: the host details \<^verbatim>\<open>ports\<close> and \<^verbatim>\<open>tcp_ports\<close> are to be added exactly when at least
  one port was found. Here port 80 is found on the first line, and no host detail is
  added, because the second line raises. (Without a malformed line:
  \<open>host_details_when_no_malformed_line\<close>.)
\<close>

theorem host_details_lost_when_parsing_raises:
  "exec_scan options
     (Some [''tcp 0 0 0.0.0.0:80 0.0.0.0:* LISTEN 456/nginx'',
            ''tcp 0 0 localhost'']) scan_id target
   = ([], Inl IndexError)"
  by (simp add: exec_scan_def scan_line_def split_ws_def split_sep_def py_isspace_def index_def)

subsection \<open>The scan on well-formed results\<close>

text \<open>
  C8: on the two lines of the example, whatever the options, the scan finds the one port
  \<^verbatim>\<open>22\<close> (the \<^verbatim>\<open>tcp6\<close> line is not a \<^verbatim>\<open>tcp\<close> line), the summary states the count 1, and
  the host details \<^verbatim>\<open>ports\<close> and \<^verbatim>\<open>tcp_ports\<close> are both \<^verbatim>\<open>22\<close>; the status is 1.
\<close>

theorem exec_scan_example:
  "exec_scan options
     (Some [''tcp 0 0 0.0.0.0:22 0.0.0.0:* LISTEN 123/sshd'',
            ''tcp6 0 0 :::80 :::* LISTEN 456/nginx'']) scan_id target =
   ([add_scan_log scan_id target ''Netstat summary''
       (Some ''Via Netstat 1 open tcp ports were found that are bound to local address 0.0.0.0.'')
       None,
     add_scan_log scan_id target ''Netstat port'' None (Some ''22/tcp'')]
    @ (if options ''dumptable'' = Some (PyInt 1)
       then [add_scan_log scan_id target ''Netstat dump''
               (Some (''Raw netstat output:'' @ [CHR 0x0A, CHR 0x0A] @
                      ''tcp 0 0 0.0.0.0:22 0.0.0.0:* LISTEN 123/sshd'' @
                      ''tcp6 0 0 :::80 :::* LISTEN 456/nginx'')) None]
       else [])
    @ [add_scan_host_detail scan_id target ''ports'' ''22'',
       add_scan_host_detail scan_id target ''tcp_ports'' ''22''],
    Inr 1)"
  by (simp add: exec_scan_def scan_line_def split_ws_def split_sep_def py_isspace_def index_def
      summary_text_def format_d.simps digit_def is_1_def dump_text_def)

text \<open>
  C9: for a line with at least four fields, the first of them \<^verbatim>\<open>tcp\<close>, whose fourth field
  has a colon with \<^verbatim>\<open>0.0.0.0\<close> before the first one, the port text is the part of the
  fourth field between its first and its second colon, or up to the end of the field when
  there is no second colon: the loop appends exactly this text, and a scan of the line
  logs it with \<^verbatim>\<open>/tcp\<close> appended. The text may be empty, and what follows a second colon
  is dropped.
\<close>

theorem port_text_between_first_and_second_colon:
  assumes "words = split_ws line"
    and "length words > 3"
    and "words ! 0 = ''tcp''"
    and "local_address = words ! 3"
    and "CHR '':'' \<in> set local_address"
    and "takeWhile (\<lambda>c. c \<noteq> CHR '':'') local_address = ''0.0.0.0''"
    and "port = takeWhile (\<lambda>c. c \<noteq> CHR '':'')
                  (tl (dropWhile (\<lambda>c. c \<noteq> CHR '':'') local_address))"
  shows "scan_line line tcp_ports = Inr (tcp_ports @ [port]) \<and>
         fst (exec_scan options (Some [line]) scan_id target) ! 1 =
           add_scan_log scan_id target ''Netstat port'' None (Some (port @ ''/tcp''))"
proof -
  from assms have l: "listening line" and p: "port_text line = port"
    by (simp_all add: listening_def tcp_candidate_def before_colon_def port_text_def
        after_colon_def)
  from l have m: "\<not> malformed line" by (auto simp: listening_def malformed_def)
  from l m p have "scan_line line tcp_ports = Inr (tcp_ports @ [port])"
    by (simp add: scan_line_eq)
  moreover from l m p have
    "fst (exec_scan options (Some [line]) scan_id target) ! 1 =
       add_scan_log scan_id target ''Netstat port'' None (Some (port @ ''/tcp''))"
    by (simp add: exec_scan_completes [OF _ refl])
  ultimately show ?thesis by simp
qed

text \<open>
  The theorem at two lines: text after a second colon is dropped (\<^verbatim>\<open>0.0.0.0:22:7\<close> gives
  \<^verbatim>\<open>22\<close>), and the port text may be empty (\<^verbatim>\<open>0.0.0.0:\<close>).
\<close>

theorem port_text_between_first_and_second_colon_witness:
  "(scan_line ''tcp 0 0 0.0.0.0:22:7 0.0.0.0:* LISTEN'' [''80''] = Inr [''80'', ''22''] \<and>
    fst (exec_scan Map.empty (Some [''tcp 0 0 0.0.0.0:22:7 0.0.0.0:* LISTEN'']) ''s'' ''h'') ! 1
      = add_scan_log ''s'' ''h'' ''Netstat port'' None (Some ''22/tcp'')) \<and>
   (scan_line ''tcp 0 0 0.0.0.0: 0.0.0.0:* LISTEN'' [''80''] = Inr [''80'', []] \<and>
    fst (exec_scan Map.empty (Some [''tcp 0 0 0.0.0.0: 0.0.0.0:* LISTEN'']) ''s'' ''h'') ! 1
      = add_scan_log ''s'' ''h'' ''Netstat port'' None (Some ''/tcp''))"
proof -
  have a: "split_ws ''tcp 0 0 0.0.0.0:22:7 0.0.0.0:* LISTEN'' =
      [''tcp'', ''0'', ''0'', ''0.0.0.0:22:7'', ''0.0.0.0:*'', ''LISTEN'']"
    by (simp add: split_ws_def py_isspace_def)
  have b: "split_ws ''tcp 0 0 0.0.0.0: 0.0.0.0:* LISTEN'' =
      [''tcp'', ''0'', ''0'', ''0.0.0.0:'', ''0.0.0.0:*'', ''LISTEN'']"
    by (simp add: split_ws_def py_isspace_def)
  show ?thesis
    using port_text_between_first_and_second_colon
        [OF a [symmetric] _ _ refl _ _ refl, of "[''80'']" Map.empty "''s''" "''h''"]
      port_text_between_first_and_second_colon
        [OF b [symmetric] _ _ refl _ _ refl, of "[''80'']" Map.empty "''s''" "''h''"]
    by simp
qed

subsection \<open>check\<close>

text \<open>
  C10: \<open>check\<close> returns true for every state of the daemon; it reads nothing of the state
  and nothing of any target host.
\<close>

theorem check_always_true: "check self = True"
  by (simp add: check_def)

end
